theory Spec2Isabelle
  imports Complex_Main
begin

section \<open>Python values and built-ins used by the two modules\<close>

text \<open>
  The program is Python 3 (both files start with a \<^verbatim>\<open>python3\<close> shebang and import
  \<^verbatim>\<open>division\<close> from \<^verbatim>\<open>__future__\<close>, so \<^verbatim>\<open>/\<close> is true division
  everywhere). Python integers are unbounded: \<^typ>\<open>int\<close>. A Python float is a
  double, and every double is a rational number: floats are values of \<^typ>\<open>rat\<close>.
  Where the text a function prints depends on the rounding of float arithmetic (the
  human-readable size), each operation rounds its exact result with \<open>round_to_double\<close>;
  the ratio of two parsed integers and the sampling timestamps are kept as the exact
  quotients, which the code's doubles approximate to within one unit of the last place.
  Exceptions are values of \<open>error\<close>; a function that can raise returns \<open>error + 'a\<close>.
\<close>

datatype error =
    TypeError string
  | ValueError string
  | KeyError string
  | IndexError
  | ZeroDivisionError
  | AttributeError string
  | OSError string
  | OverflowError

text \<open>\<^verbatim>\<open>int(x)\<close> on a float truncates toward zero.\<close>

definition py_int :: "rat \<Rightarrow> int" where
  "py_int x = (if 0 \<le> x then \<lfloor>x\<rfloor> else \<lceil>x\<rceil>)"

text \<open>\<^verbatim>\<open>round(x)\<close> with one argument: the nearest integer, ties to the even one.\<close>

definition py_round :: "rat \<Rightarrow> int" where
  "py_round x =
     (let f = \<lfloor>x\<rfloor>; r = x - of_int f
      in if r < 1 / 2 then f
         else if 1 / 2 < r then f + 1
         else if even f then f else f + 1)"

text \<open>\<^verbatim>\<open>a / b\<close> on numbers under true division.\<close>

definition py_truediv :: "rat \<Rightarrow> rat \<Rightarrow> error + rat" where
  "py_truediv a b = (if b = 0 then Inl ZeroDivisionError else Inr (a / b))"

text \<open>\<^verbatim>\<open>a // b\<close> on integers: floor division, as \<open>div\<close> on \<^typ>\<open>int\<close>.\<close>

definition py_floordiv :: "int \<Rightarrow> int \<Rightarrow> error + int" where
  "py_floordiv a b = (if b = 0 then Inl ZeroDivisionError else Inr (a div b))"

text \<open>
  \<^verbatim>\<open>fractions.gcd(a, b)\<close>: the greatest common divisor carrying the sign of \<open>b\<close>
  (of \<open>a\<close> when \<open>b\<close> is zero).
\<close>

definition fractions_gcd :: "int \<Rightarrow> int \<Rightarrow> int" where
  "fractions_gcd a b =
     (if (if b = 0 then a else b) < 0 then - gcd a b else gcd a b)"

text \<open>\<^verbatim>\<open>xs[i]\<close>: negative indices count from the end, anything else out of range raises.\<close>

definition py_index :: "'a list \<Rightarrow> int \<Rightarrow> error + 'a" where
  "py_index xs i =
     (if 0 \<le> i \<and> i < int (length xs) then Inr (xs ! nat i)
      else if i < 0 \<and> - int (length xs) \<le> i then Inr (xs ! nat (int (length xs) + i))
      else Inl IndexError)"

text \<open>\<^verbatim>\<open>range(a, b)\<close> over integers.\<close>

definition py_range :: "int \<Rightarrow> int \<Rightarrow> int list" where
  "py_range a b = map (\<lambda>k. a + int k) [0..<nat (b - a)]"

subsection \<open>Doubles\<close>

text \<open>The number of binary digits of a positive integer (\<^verbatim>\<open>int.bit_length\<close>).\<close>

function bit_length :: "int \<Rightarrow> nat" where
  "bit_length n = (if n \<le> 0 then 0 else Suc (bit_length (n div 2)))"
  by pat_completeness auto
termination
  by (relation "measure nat") auto

declare bit_length.simps [simp del]

text \<open>The integer part of the binary logarithm of a positive rational.\<close>

definition floor_log2 :: "rat \<Rightarrow> int" where
  "floor_log2 q =
     (if 1 \<le> q then int (bit_length \<lfloor>q\<rfloor>) - 1
      else - int (bit_length (\<lceil>1 / q\<rceil> - 1)))"

text \<open>
  The double nearest to a rational: 53 significant binary digits, ties to the even
  significand, and steps of \<open>2 ^ -1074\<close> below the normal range. A result of
  \<open>2 ^ 1024\<close> or more is no double; the operations below that can produce one raise
  \<^verbatim>\<open>OverflowError\<close> instead.
\<close>

definition round_to_double :: "rat \<Rightarrow> rat" where
  "round_to_double q =
     (if q = 0 then 0
      else let e = max (floor_log2 \<bar>q\<bar> - 52) (- 1074)
           in sgn q * (of_int (py_round (\<bar>q\<bar> / 2 powi e)) * 2 powi e))"


subsection \<open>String formatting\<close>

definition digit_char :: "nat \<Rightarrow> char" where
  "digit_char d = ''0123456789'' ! d"

fun str_of_nat :: "nat \<Rightarrow> string" where
  "str_of_nat n =
     (if n < 10 then [digit_char n]
      else str_of_nat (n div 10) @ [digit_char (n mod 10)])"

declare str_of_nat.simps [simp del]

text \<open>\<^verbatim>\<open>"%d" % i\<close> for an integer.\<close>

definition fmt_d :: "int \<Rightarrow> string" where
  "fmt_d i = (if i < 0 then ''-'' @ str_of_nat (nat (- i)) else str_of_nat (nat i))"

definition zfill :: "nat \<Rightarrow> string \<Rightarrow> string" where
  "zfill w s = replicate (w - length s) (CHR ''0'') @ s"

text \<open>
  \<^verbatim>\<open>"%.<d>f" % x\<close>: the decimal expansion with \<open>d\<close> fractional digits, the last
  one rounded to nearest (ties to even).
\<close>

definition fmt_f :: "nat \<Rightarrow> rat \<Rightarrow> string" where
  "fmt_f d x =
     (let s = nat (py_round (\<bar>x\<bar> * 10 ^ d))
      in (if x < 0 then ''-'' else '''') @ str_of_nat (s div 10 ^ d) @
         (if d = 0 then '''' else ''.'' @ zfill d (str_of_nat (s mod 10 ^ d))))"

text \<open>\<^verbatim>\<open>"%s" % v\<close> for a value that is a string or \<^verbatim>\<open>None\<close>.\<close>

definition fmt_s :: "string option \<Rightarrow> string" where
  "fmt_s v = (case v of None \<Rightarrow> ''None'' | Some s \<Rightarrow> s)"

text \<open>Truth value of a string or \<^verbatim>\<open>None\<close> in a condition.\<close>

definition truthy :: "string option \<Rightarrow> bool" where
  "truthy v = (case v of None \<Rightarrow> False | Some s \<Rightarrow> s \<noteq> [])"

definition upper_char :: "char \<Rightarrow> char" where
  "upper_char c =
     (if c \<in> set ''abcdefghijklmnopqrstuvwxyz''
      then char_of (of_char c - (32 :: nat)) else c)"

text \<open>\<^verbatim>\<open>s.upper()\<close> on ASCII text.\<close>

definition upper :: "string \<Rightarrow> string" where
  "upper s = map upper_char s"

section \<open>metadata.py\<close>

subsection \<open>\<^verbatim>\<open>_round_up\<close>\<close>


subsection \<open>\<^verbatim>\<open>_evaluate_ratio\<close>\<close>

definition is_digit :: "char \<Rightarrow> bool" where
  "is_digit c = (c \<in> set ''0123456789'')"

definition digit_val :: "char \<Rightarrow> nat" where
  "digit_val c = of_char c - 48"

text \<open>\<^verbatim>\<open>int(s)\<close> on a string of decimal digits.\<close>

definition int_of_digits :: "string \<Rightarrow> int" where
  "int_of_digits s = int (foldl (\<lambda>n c. 10 * n + digit_val c) 0 s)"

text \<open>The group \<^verbatim>\<open>[1-9][0-9]*\<close>, matched against a whole string.\<close>

definition is_posint :: "string \<Rightarrow> bool" where
  "is_posint s =
     (case s of [] \<Rightarrow> False
      | c # cs \<Rightarrow> c \<in> set ''123456789'' \<and> list_all is_digit cs)"

text \<open>
  \<^verbatim>\<open>re.match\<close> of \<^verbatim>\<open>^([1-9][0-9]*)SEP([1-9][0-9]*)$\<close>, returning the two groups.
  The numerator group takes the leading digits, the separator must follow, the
  denominator group takes the digits after it, and \<^verbatim>\<open>$\<close> accepts the end of the string
  or a single final newline.
\<close>

definition match_num_den :: "char \<Rightarrow> string \<Rightarrow> (string \<times> string) option" where
  "match_num_den sep s =
     (let num = takeWhile is_digit s; rest = dropWhile is_digit s
      in case rest of
           [] \<Rightarrow> None
         | c # rest' \<Rightarrow>
             (let den = takeWhile is_digit rest'; tail = dropWhile is_digit rest'
              in if c = sep \<and> is_posint num \<and> is_posint den \<and>
                    (tail = [] \<or> tail = [CHR 0x0A])
                 then Some (num, den) else None))"

text \<open>
  \<^verbatim>\<open>_evaluate_ratio\<close>: \<open>None\<close> when neither pattern matches. The value is the exact
  quotient of the two integers; the code's float is the double nearest to it.
\<close>

definition evaluate_ratio :: "string \<Rightarrow> rat option" where
  "evaluate_ratio ratio_str =
     (case match_num_den (CHR '':'') ratio_str of
        Some (n, d) \<Rightarrow> Some (of_int (int_of_digits n) / of_int (int_of_digits d))
      | None \<Rightarrow>
          (case match_num_den (CHR ''/'') ratio_str of
             Some (n, d) \<Rightarrow> Some (of_int (int_of_digits n) / of_int (int_of_digits d))
           | None \<Rightarrow> None))"

subsection \<open>\<^verbatim>\<open>Video._extract_size\<close>\<close>




subsection \<open>Streams\<close>

text \<open>
  One entry of the \<^verbatim>\<open>streams\<close> list of the probe's JSON output. A key that may be
  missing is an option; \<^verbatim>\<open>index\<close> is always there. The numeric string \<^verbatim>\<open>bit_rate\<close>
  appears as the number \<^verbatim>\<open>float()\<close> makes of it.
\<close>

record raw_stream =
  raw_index :: int
  raw_codec_type :: "string option"
  raw_codec_name :: "string option"
  raw_profile :: "string option"
  raw_level :: "int option"
  raw_width :: "int option"
  raw_height :: "int option"
  raw_display_aspect_ratio :: "string option"
  raw_r_frame_rate :: "string option"
  raw_avg_frame_rate :: "string option"
  raw_bit_rate :: "rat option"
  raw_tags :: "(string \<times> string) list option"
  raw_codec_tag_string :: "string option"

text \<open>The class \<^verbatim>\<open>Stream\<close>; \<open>None\<close> is Python's \<^verbatim>\<open>None\<close>.\<close>

record stream =
  s_index :: int
  s_type :: "string option"
  s_codec :: "string option"
  s_info_string :: "string option"
  s_bit_rate :: "rat option"
  s_bit_rate_text :: "string option"
  s_language_code :: "string option"
  s_height :: "int option"
  s_width :: "int option"
  s_dimension :: "(int \<times> int) option"
  s_dimension_text :: "string option"
  s_frame_rate :: "rat option"
  s_frame_rate_text :: "string option"
  s_dar :: "rat option"
  s_dar_text :: "string option"

text \<open>\<^verbatim>\<open>s = Stream(); s.index = stream['index']\<close>.\<close>

definition new_Stream :: "int \<Rightarrow> stream" where
  "new_Stream i =
     \<lparr>s_index = i, s_type = None, s_codec = None, s_info_string = None,
      s_bit_rate = None, s_bit_rate_text = None, s_language_code = None,
      s_height = None, s_width = None, s_dimension = None, s_dimension_text = None,
      s_frame_rate = None, s_frame_rate_text = None, s_dar = None, s_dar_text = None\<rparr>"

text \<open>The class \<^verbatim>\<open>Video\<close>.\<close>

record video =
  self_path :: string
  self_filename :: string
  self_title :: "string option"
  self_size :: int
  self_size_human :: string
  self_duration :: rat
  self_duration_human :: string
  self_scan_type :: string
  self_sha1sum :: "string option"
  self_dimension :: "(int \<times> int) option"
  self_dimension_text :: "string option"
  self_dar :: "rat option"
  self_dar_text :: "string option"
  self_frame_rate :: "rat option"
  self_frame_rate_text :: "string option"
  self_streams :: "stream list"

subsection \<open>\<^verbatim>\<open>Video._process_stream\<close>\<close>

text \<open>The codec label of a video stream.\<close>

definition video_codec :: "raw_stream \<Rightarrow> string" where
  "video_codec stream =
     (case raw_codec_name stream of
        None \<Rightarrow> ''unknown codec''
      | Some name \<Rightarrow>
          if name = ''h264'' then
            (case (raw_profile stream, raw_level stream) of
               (Some p, Some l) \<Rightarrow>
                 ''H.264 ('' @ p @ '' Profile level '' @ fmt_f 1 (of_int l / 10) @ '')''
             | _ \<Rightarrow> ''H.264'')
          else if name = ''mpeg2video'' then
            (case raw_profile stream of
               Some p \<Rightarrow> ''MPEG-2 video ('' @ p @ '' Profile)''
             | None \<Rightarrow> ''MPEG-2 video'')
          else if name = ''mpeg4'' then
            (case raw_profile stream of
               Some p \<Rightarrow> ''MPEG-4 Part 2 ('' @ p @ '')''
             | None \<Rightarrow> ''MPEG-4 Part 2'')
          else if name = ''mjpeg'' then ''MJPEG''
          else upper name)"

text \<open>
  The block under \<^verbatim>\<open># display aspect ratio (DAR)\<close>: the values of \<^verbatim>\<open>s.dar\<close> and
  \<^verbatim>\<open>s.dar_text\<close> (both \<^verbatim>\<open>None\<close> after \<^verbatim>\<open>Stream()\<close>).
\<close>

definition stream_dar :: "raw_stream \<Rightarrow> int \<Rightarrow> int \<Rightarrow> error + (rat option \<times> string option)" where
  "stream_dar stream width height =
     (case raw_display_aspect_ratio stream of
        Some r \<Rightarrow>
          (let dar = evaluate_ratio r
           in Inr (dar, if dar = None then None else Some r))
      | None \<Rightarrow>
          (let g = fractions_gcd width height
           in case py_floordiv width g of Inl e \<Rightarrow> Inl e | Inr reduced_width \<Rightarrow>
              case py_floordiv height g of Inl e \<Rightarrow> Inl e | Inr reduced_height \<Rightarrow>
              case py_truediv (of_int reduced_width) (of_int reduced_height) of
                Inl e \<Rightarrow> Inl e
              | Inr dar \<Rightarrow>
                  Inr (Some dar, Some (fmt_d reduced_width @ '':'' @ fmt_d reduced_height))))"

text \<open>The block under \<^verbatim>\<open># frame rate\<close>: \<^verbatim>\<open>s.frame_rate\<close> and \<^verbatim>\<open>s.frame_rate_text\<close>.\<close>

definition stream_frame_rate :: "raw_stream \<Rightarrow> rat option" where
  "stream_frame_rate stream =
     (case raw_r_frame_rate stream of
        Some r \<Rightarrow> evaluate_ratio r
      | None \<Rightarrow>
          (case raw_avg_frame_rate stream of
             Some r \<Rightarrow> evaluate_ratio r
           | None \<Rightarrow> None))"

definition frame_rate_text :: "rat \<Rightarrow> string" where
  "frame_rate_text fps =
     (if \<bar>fps - of_int (py_int fps)\<bar> < 1 / 10000
      then fmt_d (py_int fps) @ '' fps''
      else fmt_f 2 fps @ '' fps'')"

text \<open>The block under \<^verbatim>\<open># bit rate\<close>: the text for a bit rate that is present.\<close>

definition bit_rate_text :: "rat \<Rightarrow> string" where
  "bit_rate_text b = fmt_d (py_round (b / 1000)) @ '' kb/s''"

text \<open>The block under \<^verbatim>\<open># language\<close>, shared by audio and subtitle streams.\<close>

definition stream_language :: "raw_stream \<Rightarrow> string option" where
  "stream_language stream =
     (case raw_tags stream of
        None \<Rightarrow> None
      | Some tags \<Rightarrow>
          (case map_of tags ''language'' of
             Some l \<Rightarrow> Some l
           | None \<Rightarrow> map_of tags ''LANGUAGE''))"

definition audio_codec :: "raw_stream \<Rightarrow> string" where
  "audio_codec stream =
     (case raw_codec_name stream of
        None \<Rightarrow> ''unknown codec''
      | Some name \<Rightarrow>
          if name = ''aac'' then
            (case raw_profile stream of
               Some p \<Rightarrow> ''AAC ('' @ (if p = ''LC'' then ''Low Complexity'' else p) @ '')''
             | None \<Rightarrow> ''AAC'')
          else if name = ''ac3'' then ''Dolby AC-3''
          else if name = ''mp3'' then ''MP3''
          else upper name)"

definition subtitle_codec :: "raw_stream \<Rightarrow> string" where
  "subtitle_codec stream =
     (case raw_codec_name stream of
        None \<Rightarrow>
          (if raw_codec_tag_string stream = Some ''c608'' then ''EIA-608''
           else ''unknown codec'')
      | Some name \<Rightarrow>
          if name = ''srt'' then ''SubRip''
          else if name = ''ass'' then ''ASS''
          else upper name)"

text \<open>
  \<^verbatim>\<open>_process_stream\<close> itself. It reads and writes the \<^verbatim>\<open>Video\<close> object
  (\<^verbatim>\<open>self\<close>), so it takes \<open>self\<close> and returns it updated next to the new
  \<^verbatim>\<open>Stream\<close>. A missing \<^verbatim>\<open>width\<close> or \<^verbatim>\<open>height\<close> raises \<^verbatim>\<open>KeyError\<close>.
\<close>

definition process_video_stream :: "video \<Rightarrow> raw_stream \<Rightarrow> stream \<Rightarrow> error + (stream \<times> video)" where
  "process_video_stream self stream s0 =
     (case raw_width stream of None \<Rightarrow> Inl (KeyError ''width'') | Some width \<Rightarrow>
      case raw_height stream of None \<Rightarrow> Inl (KeyError ''height'') | Some height \<Rightarrow>
      let dimension_text = fmt_d width @ ''x'' @ fmt_d height;
          s1 = s0\<lparr>s_type := Some ''video'', s_codec := Some (video_codec stream),
                  s_width := Some width, s_height := Some height,
                  s_dimension := Some (width, height),
                  s_dimension_text := Some dimension_text\<rparr>;
          self1 = (if self_dimension self = None
                   then self\<lparr>self_dimension := s_dimension s1,
                             self_dimension_text := s_dimension_text s1\<rparr>
                   else self)
      in case stream_dar stream width height of Inl e \<Rightarrow> Inl e | Inr (dar, dar_text) \<Rightarrow>
      let s2 = s1\<lparr>s_dar := dar, s_dar_text := dar_text\<rparr>;
          self2 = (if self_dar self1 = None
                   then self1\<lparr>self_dar := s_dar s2, self_dar_text := s_dar_text s2\<rparr>
                   else self1);
          frame_rate = stream_frame_rate stream;
          s3 = s2\<lparr>s_frame_rate := frame_rate,
                  s_frame_rate_text := map_option frame_rate_text frame_rate\<rparr>;
          self3 = (if self_frame_rate self2 = None
                   then self2\<lparr>self_frame_rate := s_frame_rate s3,
                              self_frame_rate_text := s_frame_rate_text s3\<rparr>
                   else self2);
          s4 = s3\<lparr>s_bit_rate := raw_bit_rate stream,
                  s_bit_rate_text := map_option bit_rate_text (raw_bit_rate stream)\<rparr>;
          info = ''Video, '' @ fmt_s (s_codec s4) @ '', '' @ fmt_s (s_dimension_text s4) @
                 '' (DAR '' @ fmt_s (s_dar_text s4) @ '')'';
          info' = (if truthy (s_frame_rate_text s4)
                   then info @ '', '' @ the (s_frame_rate_text s4) else info);
          info'' = (if truthy (s_bit_rate_text s4)
                    then info' @ '', '' @ the (s_bit_rate_text s4) else info')
      in Inr (s4\<lparr>s_info_string := Some info''\<rparr>, self3))"

definition process_audio_stream :: "raw_stream \<Rightarrow> stream \<Rightarrow> stream" where
  "process_audio_stream stream s0 =
     (let s1 = s0\<lparr>s_type := Some ''audio'', s_codec := Some (audio_codec stream),
                  s_bit_rate := raw_bit_rate stream,
                  s_bit_rate_text := map_option bit_rate_text (raw_bit_rate stream)\<rparr>;
          s2 = (case stream_language stream of
                  Some l \<Rightarrow> s1\<lparr>s_language_code := Some l\<rparr>
                | None \<Rightarrow> s1);
          info = (if truthy (s_language_code s2)
                  then ''Audio ('' @ the (s_language_code s2) @ ''), '' @ fmt_s (s_codec s2)
                  else ''Audio, '' @ fmt_s (s_codec s2));
          info' = (if truthy (s_bit_rate_text s2)
                   then info @ '', '' @ the (s_bit_rate_text s2) else info)
      in s2\<lparr>s_info_string := Some info'\<rparr>)"

definition process_subtitle_stream :: "raw_stream \<Rightarrow> stream \<Rightarrow> stream" where
  "process_subtitle_stream stream s0 =
     (let s1 = s0\<lparr>s_codec := Some (subtitle_codec stream)\<rparr>;
          s2 = (case stream_language stream of
                  Some l \<Rightarrow> s1\<lparr>s_language_code := Some l\<rparr>
                | None \<Rightarrow> s1);
          info = (if truthy (s_language_code s2)
                  then ''Subtitle ('' @ the (s_language_code s2) @ ''), '' @ fmt_s (s_codec s2)
                  else ''Subtitle, '' @ fmt_s (s_codec s2))
      in s2\<lparr>s_info_string := Some info\<rparr>)"

definition process_stream :: "video \<Rightarrow> raw_stream \<Rightarrow> error + (stream \<times> video)" where
  "process_stream self stream =
     (let s = new_Stream (raw_index stream)
      in case raw_codec_type stream of
           None \<Rightarrow> Inr (s\<lparr>s_type := Some ''unknown'', s_info_string := Some ''Data''\<rparr>, self)
         | Some t \<Rightarrow>
             if t = ''video'' then process_video_stream self stream s
             else if t = ''audio'' then Inr (process_audio_stream stream s, self)
             else if t = ''subtitle'' then Inr (process_subtitle_stream stream s, self)
             else Inr (s\<lparr>s_type := Some t, s_info_string := Some ''Data''\<rparr>, self))"

subsection \<open>\<^verbatim>\<open>Video._extract_streams\<close>\<close>

text \<open>
  The loop \<^verbatim>\<open>for stream in self._ffprobe['streams']\<close>, appending each
  \<^verbatim>\<open>Stream\<close> to \<^verbatim>\<open>self.streams\<close>.
\<close>

fun extract_streams_loop :: "video \<Rightarrow> raw_stream list \<Rightarrow> error + video" where
  "extract_streams_loop self [] = Inr self"
| "extract_streams_loop self (stream # rest) =
     (case process_stream self stream of
        Inl e \<Rightarrow> Inl e
      | Inr (s, self') \<Rightarrow>
          extract_streams_loop (self'\<lparr>self_streams := self_streams self' @ [s]\<rparr>) rest)"

definition extract_streams :: "video \<Rightarrow> raw_stream list \<Rightarrow> error + video" where
  "extract_streams self raw = extract_streams_loop (self\<lparr>self_streams := []\<rparr>) raw"

section \<open>storyboard.py\<close>

subsection \<open>\<^verbatim>\<open>tile_images\<close>\<close>

text \<open>
  A Pillow image is its \<^verbatim>\<open>size\<close>, a pair (width, height), and a tag standing for
  its raster. The canvas that \<^verbatim>\<open>tile_images\<close> returns is the size and colour given to
  \<^verbatim>\<open>Image.new\<close> and the calls of \<^verbatim>\<open>canvas.paste\<close> in order: which input image,
  the size of what was pasted (the tile size when the image was resized first) and the
  position. \<open>images_closed\<close> records whether the inputs were closed at the end.
\<close>

record image =
  im_tag :: nat
  im_size :: "int \<times> int"

record paste =
  pasted_image :: image
  pasted_size :: "int \<times> int"
  pasted_at :: "int \<times> int"

record canvas =
  canvas_size :: "int \<times> int"
  canvas_color :: string
  canvas_pastes :: "paste list"
  images_closed :: bool

text \<open>The \<^verbatim>\<open>params\<close> dictionary: a key that is missing is \<open>None\<close>.\<close>

record tile_params =
  p_tile_size :: "(int \<times> int) option"
  p_tile_spacing :: "(int \<times> int) option"
  p_margins :: "(int \<times> int) option"
  p_canvas_color :: "string option"
  p_close_separate_images :: "bool option"

text \<open>
  The message both consistency checks build with \<^verbatim>\<open>str.format\<close>; \<open>what\<close> is
  \<^verbatim>\<open>width\<close> or \<^verbatim>\<open>height\<close>, the other arguments are the ten format arguments in order.
\<close>

definition mismatch_msg ::
  "string \<Rightarrow> int \<Rightarrow> int \<Rightarrow> int \<Rightarrow> int \<Rightarrow> int \<Rightarrow> int \<Rightarrow> int \<Rightarrow> int \<Rightarrow> int \<Rightarrow> int \<Rightarrow> string" where
  "mismatch_msg what a1 a2 a3 a4 a5 a6 a7 a8 a9 a10 =
     ''the '' @ what @ '' of image #'' @ fmt_d a1 @
     '' (row #'' @ fmt_d a2 @ '', col #'' @ fmt_d a3 @ '', '' @ fmt_d a4 @ ''x'' @ fmt_d a5 @
     '') does not agree with that of image #'' @ fmt_d a6 @
     '' (row #'' @ fmt_d a7 @ '', col #'' @ fmt_d a8 @ '', '' @ fmt_d a9 @ ''x'' @ fmt_d a10 @ '')''"

text \<open>The inner loop of the width check: \<^verbatim>\<open>for row in range(1, rows)\<close>, for one column.\<close>

fun check_column :: "image list \<Rightarrow> int \<Rightarrow> int \<Rightarrow> int \<Rightarrow> image \<Rightarrow> int list \<Rightarrow> error + unit" where
  "check_column images cols col ref_index ref [] = Inr ()"
| "check_column images cols col ref_index ref (row # rest) =
     (let index = row * cols + col
      in case py_index images index of
           Inl e \<Rightarrow> Inl e
         | Inr im \<Rightarrow>
             (let (width, height) = im_size im; (ref_width, ref_height) = im_size ref
              in if width \<noteq> ref_width
                 then Inl (ValueError (mismatch_msg ''width'' index row col width height
                                         ref_index 0 col ref_width ref_height))
                 else check_column images cols col ref_index ref rest))"

text \<open>The outer loop of the width check, accumulating \<^verbatim>\<open>canvas_width\<close>.\<close>

fun check_columns :: "image list \<Rightarrow> int \<Rightarrow> int \<Rightarrow> int \<Rightarrow> int list \<Rightarrow> error + int" where
  "check_columns images cols rows canvas_width [] = Inr canvas_width"
| "check_columns images cols rows canvas_width (col # rest) =
     (let ref_index = 0 * cols + col
      in case py_index images ref_index of
           Inl e \<Rightarrow> Inl e
         | Inr ref \<Rightarrow>
             (case check_column images cols col ref_index ref (py_range 1 rows) of
                Inl e \<Rightarrow> Inl e
              | Inr _ \<Rightarrow>
                  check_columns images cols rows (canvas_width + fst (im_size ref)) rest))"

text \<open>The inner loop of the height check: \<^verbatim>\<open>for col in range(1, cols)\<close>, for one row.\<close>

fun check_row :: "image list \<Rightarrow> int \<Rightarrow> int \<Rightarrow> int \<Rightarrow> image \<Rightarrow> int list \<Rightarrow> error + unit" where
  "check_row images cols row ref_index ref [] = Inr ()"
| "check_row images cols row ref_index ref (col # rest) =
     (let index = row * cols + col
      in case py_index images index of
           Inl e \<Rightarrow> Inl e
         | Inr im \<Rightarrow>
             (let (width, height) = im_size im; (ref_width, ref_height) = im_size ref
              in if height \<noteq> ref_height
                 then Inl (ValueError (mismatch_msg ''height'' index row col width height
                                         ref_index 0 col ref_width ref_height))
                 else check_row images cols row ref_index ref rest))"

text \<open>The outer loop of the height check, accumulating \<^verbatim>\<open>canvas_height\<close>.\<close>

fun check_rows :: "image list \<Rightarrow> int \<Rightarrow> int \<Rightarrow> int list \<Rightarrow> error + int" where
  "check_rows images cols canvas_height [] = Inr canvas_height"
| "check_rows images cols canvas_height (row # rest) =
     (let ref_index = row * cols + 0
      in case py_index images ref_index of
           Inl e \<Rightarrow> Inl e
         | Inr ref \<Rightarrow>
             (case check_row images cols row ref_index ref (py_range 1 cols) of
                Inl e \<Rightarrow> Inl e
              | Inr _ \<Rightarrow>
                  check_rows images cols (canvas_height + snd (im_size ref)) rest))"

text \<open>
  The assembling loops. \<open>paste_row\<close> is \<^verbatim>\<open>for col in range(0, cols)\<close> for one row,
  started at \<^verbatim>\<open>x = hor_margin\<close>; it returns the final \<^verbatim>\<open>x\<close>. \<open>paste_rows\<close> is
  \<^verbatim>\<open>for row in range(0, rows)\<close>; it returns the final \<^verbatim>\<open>y\<close>. Both step by the
  size of the input image, \<^verbatim>\<open>image.size[0]\<close> and \<^verbatim>\<open>images[row * cols + 0].size[1]\<close>,
  as the source does.
\<close>

fun paste_row ::
  "image list \<Rightarrow> int \<Rightarrow> int \<Rightarrow> (int \<times> int) option \<Rightarrow> int \<Rightarrow> int \<Rightarrow> int \<Rightarrow> paste list \<Rightarrow>
   int list \<Rightarrow> error + (int \<times> paste list)" where
  "paste_row images cols row tile_size hor_spacing x y ps [] = Inr (x, ps)"
| "paste_row images cols row tile_size hor_spacing x y ps (col # rest) =
     (case py_index images (row * cols + col) of
        Inl e \<Rightarrow> Inl e
      | Inr im \<Rightarrow>
          (let p = (case tile_size of
                      Some ts \<Rightarrow> \<lparr>pasted_image = im, pasted_size = ts, pasted_at = (x, y)\<rparr>
                    | None \<Rightarrow> \<lparr>pasted_image = im, pasted_size = im_size im, pasted_at = (x, y)\<rparr>)
           in paste_row images cols row tile_size hor_spacing
                (x + (fst (im_size im) + hor_spacing)) y (ps @ [p]) rest))"

fun paste_rows ::
  "image list \<Rightarrow> int \<Rightarrow> (int \<times> int) option \<Rightarrow> int \<Rightarrow> int \<Rightarrow> int \<Rightarrow> int \<Rightarrow> paste list \<Rightarrow>
   int list \<Rightarrow> error + (int \<times> paste list)" where
  "paste_rows images cols tile_size hor_spacing ver_spacing hor_margin y ps [] = Inr (y, ps)"
| "paste_rows images cols tile_size hor_spacing ver_spacing hor_margin y ps (row # rest) =
     (case paste_row images cols row tile_size hor_spacing hor_margin y ps (py_range 0 cols) of
        Inl e \<Rightarrow> Inl e
      | Inr (x, ps') \<Rightarrow>
          (case py_index images (row * cols + 0) of
             Inl e \<Rightarrow> Inl e
           | Inr im0 \<Rightarrow>
               paste_rows images cols tile_size hor_spacing ver_spacing hor_margin
                 (y + (snd (im_size im0) + ver_spacing)) ps' rest))"

text \<open>
  The first half of \<^verbatim>\<open>tile_images\<close>: the size of the canvas, from the tile size when
  one is given and from the checked images otherwise.
\<close>

definition tile_canvas_size ::
  "image list \<Rightarrow> int \<Rightarrow> int \<Rightarrow> (int \<times> int) option \<Rightarrow> int \<times> int \<Rightarrow> int \<times> int \<Rightarrow> error + (int \<times> int)" where
  "tile_canvas_size images cols rows tile_size spacing margins =
     (let (hor_spacing, ver_spacing) = spacing; (hor_margin, ver_margin) = margins
      in case tile_size of
           Some (tile_width, tile_height) \<Rightarrow>
             Inr (tile_width * cols + hor_spacing * (cols - 1) + hor_margin * 2,
                  tile_height * rows + ver_spacing * (rows - 1) + ver_margin * 2)
         | None \<Rightarrow>
             (case check_columns images cols rows
                     (hor_spacing * (cols - 1) + hor_margin * 2) (py_range 0 cols) of
                Inl e \<Rightarrow> Inl e
              | Inr canvas_width \<Rightarrow>
                  (case check_rows images cols
                          (ver_spacing * (rows - 1) + ver_margin * 2) (py_range 0 rows) of
                     Inl e \<Rightarrow> Inl e
                   | Inr canvas_height \<Rightarrow> Inr (canvas_width, canvas_height))))"

definition tile_images :: "image list \<Rightarrow> int \<times> int \<Rightarrow> tile_params \<Rightarrow> error + canvas" where
  "tile_images images tile params =
     (let (cols, rows) = tile
      in if int (length images) \<noteq> cols * rows
         then Inl (ValueError (fmt_d (int (length images)) @ '' images cannot fit into a '' @
                               fmt_d cols @ ''x'' @ fmt_d rows @ ''='' @ fmt_d (cols * rows) @
                               '' array''))
         else
           (let spacing = (case p_tile_spacing params of Some sp \<Rightarrow> sp | None \<Rightarrow> (0, 0));
                margins = (case p_margins params of Some mg \<Rightarrow> mg | None \<Rightarrow> (0, 0));
                color = (case p_canvas_color params of Some c \<Rightarrow> c | None \<Rightarrow> ''white'');
                close_separate_images =
                  (case p_close_separate_images params of Some b \<Rightarrow> b | None \<Rightarrow> False)
            in case tile_canvas_size images cols rows (p_tile_size params) spacing margins of
                 Inl e \<Rightarrow> Inl e
               | Inr size' \<Rightarrow>
                   (case paste_rows images cols (p_tile_size params) (fst spacing) (snd spacing)
                           (fst margins) (snd margins) [] (py_range 0 rows) of
                      Inl e \<Rightarrow> Inl e
                    | Inr (y, ps) \<Rightarrow>
                        Inr \<lparr>canvas_size = size', canvas_color = color, canvas_pastes = ps,
                             images_closed = close_separate_images\<rparr>)))"

subsection \<open>\<^verbatim>\<open>StoryBoard.gen_frames\<close>\<close>

text \<open>
  A frame is what \<^verbatim>\<open>storyboard.frame.extract_frame\<close> returns: the timestamp and the
  image. That function is not among the sources; \<^verbatim>\<open>gen_frames\<close> takes it as the
  parameter \<open>extract_frame\<close>, given the video, the timestamp and the two entries of
  \<^verbatim>\<open>params\<close>, and failing with an error or returning a frame.

  A \<^verbatim>\<open>StoryBoard\<close> object has the attributes \<^verbatim>\<open>video\<close> and \<^verbatim>\<open>frames\<close>, which
  \<^verbatim>\<open>__init__\<close> sets, and \<^verbatim>\<open>_bins\<close> and \<^verbatim>\<open>_frame_codec\<close>, which
  \<^verbatim>\<open>gen_frames\<close> reads and \<^verbatim>\<open>__init__\<close> does not set: \<open>None\<close> is an attribute that
  does not exist, and reading it raises \<^verbatim>\<open>AttributeError\<close>.
\<close>

record frame =
  frame_timestamp :: rat
  frame_image :: image

record storyboard =
  sb_video :: video
  sb_frames :: "frame list"
  sb_bins :: "string list option"
  sb_frame_codec :: "string option"

text \<open>
  The two lines of \<^verbatim>\<open>gen_frames\<close> that compute the timestamps:
  \<^verbatim>\<open>interval = duration / count\<close> and
  \<^verbatim>\<open>[interval * (i + 1/2) for i in range(0, count)]\<close>.
\<close>

definition sample_timestamps :: "rat \<Rightarrow> int \<Rightarrow> error + rat list" where
  "sample_timestamps duration count =
     (case py_truediv duration (of_int count) of
        Inl e \<Rightarrow> Inl e
      | Inr interval \<Rightarrow>
          Inr (map (\<lambda>i. interval * (of_int i + 1 / 2)) (py_range 0 count)))"

text \<open>
  The loop \<^verbatim>\<open>for timestamp in timestamps\<close>. An exception leaves the frames appended
  so far in place and is raised again. Writing progress to the error stream is left out.
\<close>

fun gen_frames_loop ::
  "(video \<Rightarrow> rat \<Rightarrow> string \<Rightarrow> string \<Rightarrow> error + frame) \<Rightarrow> storyboard \<Rightarrow> rat list \<Rightarrow>
   (error + unit) \<times> storyboard" where
  "gen_frames_loop extract_frame self [] = (Inr (), self)"
| "gen_frames_loop extract_frame self (timestamp # rest) =
     (case sb_bins self of
        None \<Rightarrow> (Inl (AttributeError ''_bins''), self)
      | Some bins \<Rightarrow>
          (case py_index bins 0 of
             Inl e \<Rightarrow> (Inl e, self)
           | Inr ffmpeg_bin \<Rightarrow>
               (case sb_frame_codec self of
                  None \<Rightarrow> (Inl (AttributeError ''_frame_codec''), self)
                | Some codec \<Rightarrow>
                    (case extract_frame (sb_video self) timestamp ffmpeg_bin codec of
                       Inl e \<Rightarrow> (Inl e, self)
                     | Inr fr \<Rightarrow>
                         gen_frames_loop extract_frame
                           (self\<lparr>sb_frames := sb_frames self @ [fr]\<rparr>) rest))))"

definition gen_frames ::
  "(video \<Rightarrow> rat \<Rightarrow> string \<Rightarrow> string \<Rightarrow> error + frame) \<Rightarrow> storyboard \<Rightarrow> int \<Rightarrow>
   (error + unit) \<times> storyboard" where
  "gen_frames extract_frame self count =
     (if int (length (sb_frames self)) = count then (Inr (), self)
      else
        (case sample_timestamps (self_duration (sb_video self)) count of
           Inl e \<Rightarrow> (Inl e, self)
         | Inr timestamps \<Rightarrow> gen_frames_loop extract_frame self timestamps))"

section \<open>Definitions that follow the specification's wording\<close>





section \<open>Example inputs\<close>

text \<open>A \<^verbatim>\<open>Video\<close> object as the constructor leaves it before the streams are read.\<close>

definition example_video :: video where
  "example_video =
     \<lparr>self_path = ''/v/a.mp4'', self_filename = ''a.mp4'', self_title = None,
      self_size = 1536, self_size_human = ''1.50KiB'',
      self_duration = 100, self_duration_human = ''00:01:40.00'',
      self_scan_type = ''Progressive scan'', self_sha1sum = None,
      self_dimension = None, self_dimension_text = None,
      self_dar = None, self_dar_text = None,
      self_frame_rate = None, self_frame_rate_text = None,
      self_streams = []\<rparr>"

text \<open>A frame extractor that always fails, and a \<^verbatim>\<open>StoryBoard\<close> with no frames yet.\<close>

definition failing_extract :: "video \<Rightarrow> rat \<Rightarrow> string \<Rightarrow> string \<Rightarrow> error + frame" where
  "failing_extract v t b c = Inl (OSError ''ffmpeg failed'')"

definition fresh_storyboard :: storyboard where
  "fresh_storyboard =
     \<lparr>sb_video = example_video, sb_frames = [], sb_bins = None, sb_frame_codec = None\<rparr>"

text \<open>
  A video stream whose \<^verbatim>\<open>display_aspect_ratio\<close> is \<^verbatim>\<open>0:1\<close>, which the probe
  prints when it does not know the ratio.
\<close>

definition malformed_dar_stream :: raw_stream where
  "malformed_dar_stream =
     \<lparr>raw_index = 0, raw_codec_type = Some ''video'', raw_codec_name = Some ''h264'',
      raw_profile = None, raw_level = None, raw_width = Some 1920, raw_height = Some 1080,
      raw_display_aspect_ratio = Some ''0:1'', raw_r_frame_rate = Some ''30/1'',
      raw_avg_frame_rate = None, raw_bit_rate = None, raw_tags = None,
      raw_codec_tag_string = None\<rparr>"

text \<open>
  Two video streams of one file: an attached picture, for which the probe knows neither
  the aspect ratio nor a frame rate, and the film itself.
\<close>

definition cover_art_stream :: raw_stream where
  "cover_art_stream =
     \<lparr>raw_index = 0, raw_codec_type = Some ''video'', raw_codec_name = Some ''mjpeg'',
      raw_profile = None, raw_level = None, raw_width = Some 640, raw_height = Some 480,
      raw_display_aspect_ratio = Some ''0:1'', raw_r_frame_rate = Some ''0/0'',
      raw_avg_frame_rate = Some ''0/0'', raw_bit_rate = None, raw_tags = None,
      raw_codec_tag_string = None\<rparr>"

definition main_video_stream :: raw_stream where
  "main_video_stream =
     \<lparr>raw_index = 1, raw_codec_type = Some ''video'', raw_codec_name = Some ''h264'',
      raw_profile = None, raw_level = None, raw_width = Some 1920, raw_height = Some 1080,
      raw_display_aspect_ratio = Some ''16:9'', raw_r_frame_rate = Some ''30/1'',
      raw_avg_frame_rate = None, raw_bit_rate = None, raw_tags = None,
      raw_codec_tag_string = None\<rparr>"

text \<open>Images and \<^verbatim>\<open>params\<close> dictionaries for \<^verbatim>\<open>tile_images\<close>.\<close>

definition no_params :: tile_params where
  "no_params =
     \<lparr>p_tile_size = None, p_tile_spacing = None, p_margins = None, p_canvas_color = None,
      p_close_separate_images = None\<rparr>"

definition height_mismatch_images :: "image list" where
  "height_mismatch_images =
     [\<lparr>im_tag = 0, im_size = (10, 10)\<rparr>, \<lparr>im_tag = 1, im_size = (10, 10)\<rparr>,
      \<lparr>im_tag = 2, im_size = (10, 10)\<rparr>, \<lparr>im_tag = 3, im_size = (10, 11)\<rparr>]"

definition small_tile_params :: tile_params where
  "small_tile_params = no_params\<lparr>p_tile_size := Some (10, 10)\<rparr>"

definition large_images :: "image list" where
  "large_images = [\<lparr>im_tag = 0, im_size = (100, 100)\<rparr>, \<lparr>im_tag = 1, im_size = (100, 100)\<rparr>]"

definition resize_params :: tile_params where
  "resize_params = no_params\<lparr>p_tile_size := Some (480, 270), p_tile_spacing := Some (4, 3)\<rparr>"

definition four_frames :: "image list" where
  "four_frames =
     [\<lparr>im_tag = 0, im_size = (1920, 1080)\<rparr>, \<lparr>im_tag = 1, im_size = (1280, 720)\<rparr>,
      \<lparr>im_tag = 2, im_size = (640, 480)\<rparr>, \<lparr>im_tag = 3, im_size = (100, 50)\<rparr>]"

section \<open>Properties\<close>

subsection \<open>Helper facts\<close>

lemma py_range_0: "py_range 0 n = map int [0..<nat n]"
  by (simp add: py_range_def)

subsection \<open>Sampling frames\<close>

text \<open>
  Claim C4, as the code has it. \<^verbatim>\<open>gen_frames\<close> first compares the number of frames
  held with \<^verbatim>\<open>count\<close> and returns when they agree. With \<^verbatim>\<open>count = 0\<close> the call
  therefore does nothing when no frame is held, as right after construction; it reaches
  \<^verbatim>\<open>duration / count\<close> and raises \<^verbatim>\<open>ZeroDivisionError\<close>, with the object unchanged,
  exactly when some frame is held already.
\<close>

theorem gen_frames_count_zero:
  "gen_frames extract_frame self 0 =
     (if sb_frames self = [] then (Inr (), self) else (Inl ZeroDivisionError, self))"
  by (simp add: gen_frames_def sample_timestamps_def py_truediv_def)

text \<open>
  The claim as stated (an error in every state) fails on a \<^verbatim>\<open>StoryBoard\<close> without
  frames: the call returns normally and changes nothing.
\<close>

theorem gen_frames_count_zero_counterexample:
  "gen_frames failing_extract fresh_storyboard 0 = (Inr (), fresh_storyboard)"
  by (simp add: gen_frames_def fresh_storyboard_def)

text \<open>
  Claim C8. For a positive duration and a positive count the timestamps computed by
  \<^verbatim>\<open>gen_frames\<close> are \<open>(2 i + 1) duration / (2 count)\<close> for \<open>i = 0, ..., count - 1\<close>:
  the midpoints of \<open>count\<close> intervals of equal width. They are strictly increasing and
  lie strictly between 0 and the duration. A duration of 100 with a count of 4 gives
  12.5, 37.5, 62.5, 87.5.
\<close>

theorem sample_timestamps_midpoints:
  assumes "0 < duration" and "0 < count"
  shows "(\<exists>ts. sample_timestamps duration count = Inr ts \<and>
           ts = map (\<lambda>i. (2 * of_nat i + 1) * duration / (2 * of_int count)) [0..<nat count] \<and>
           length ts = nat count \<and>
           sorted_wrt (<) ts \<and> (\<forall>t \<in> set ts. 0 < t \<and> t < duration)) \<and>
         sample_timestamps 100 4 = Inr [25 / 2, 75 / 2, 125 / 2, 175 / 2]"
proof -
  let ?f = "\<lambda>i::nat. (2 * of_nat i + 1) * duration / (2 * of_int count)"
  have c: "(0::rat) < of_int count" using assms by simp
  have eq: "sample_timestamps duration count = Inr (map ?f [0..<nat count])"
    using assms by (simp add: sample_timestamps_def py_truediv_def py_range_0 comp_def field_simps)
  have mono: "?f i < ?f j" if "i < j" for i j
  proof -
    have "(2 * of_nat i + 1) * duration < (2 * of_nat j + 1) * duration"
      using that assms by simp
    then show ?thesis using c by (simp add: divide_strict_right_mono)
  qed
  have srt: "sorted_wrt (<) (map ?f [0..<nat count])"
    unfolding sorted_wrt_map
    by (rule sorted_wrt_mono_rel [of _ "(<)"]) (auto intro: mono)
  have inner: "0 < ?f i \<and> ?f i < duration" if "i < nat count" for i
  proof -
    have i: "2 * rat_of_nat i + 1 < 2 * of_int count"
    proof -
      have "2 * int i + 1 < 2 * count" using that by linarith
      then have "rat_of_int (2 * int i + 1) < rat_of_int (2 * count)"
        by (simp only: of_int_less_iff)
      then show ?thesis by simp
    qed
    have "0 < (2 * rat_of_nat i + 1) * duration" using assms by simp
    then have p: "0 < ?f i" using c by simp
    have "(2 * rat_of_nat i + 1) * duration < (2 * of_int count) * duration"
      using i assms by simp
    then have "?f i < duration" using c by (simp add: field_simps)
    with p show ?thesis by simp
  qed
  have general: "\<exists>ts. sample_timestamps duration count = Inr ts \<and>
           ts = map ?f [0..<nat count] \<and> length ts = nat count \<and>
           sorted_wrt (<) ts \<and> (\<forall>t \<in> set ts. 0 < t \<and> t < duration)"
    using eq srt inner by auto
  have example: "sample_timestamps 100 4 = Inr [25 / 2, 75 / 2, 125 / 2, 175 / 2]"
    by (simp add: sample_timestamps_def py_truediv_def py_range_def upt_rec)
  from general example show ?thesis by (rule conjI)
qed

theorem sample_timestamps_midpoints_witness:
  "(0::rat) < 100 \<and> (0::int) < 4 \<and>
   (\<exists>ts. sample_timestamps 100 4 = Inr ts \<and> length ts = 4 \<and> sorted_wrt (<) ts)"
  using sample_timestamps_midpoints [of 100 4] by auto

subsection \<open>The frame-rate text\<close>

text \<open>The frame rate \<^verbatim>\<open>2999999/100000\<close>, that is 29.99999, step by step.\<close>

lemma match_slash_example:
  "match_num_den (CHR ''/'') ''2999999/100000'' = Some (''2999999'', ''100000'')"
  by (simp add: match_num_den_def is_digit_def is_posint_def)

lemma match_colon_example: "match_num_den (CHR '':'') ''2999999/100000'' = None"
  by (simp add: match_num_den_def is_digit_def is_posint_def)

lemma evaluate_ratio_example:
  "evaluate_ratio ''2999999/100000'' = Some (2999999 / 100000)"
proof -
  have n: "int_of_digits ''2999999'' = 2999999" by (simp add: int_of_digits_def digit_val_def)
  have d: "int_of_digits ''100000'' = 100000" by (simp add: int_of_digits_def digit_val_def)
  show ?thesis by (simp add: evaluate_ratio_def match_slash_example match_colon_example n d)
qed

text \<open>The double nearest to 29.99999, which is the float the code holds.\<close>

lemma double_example:
  "round_to_double (2999999 / 100000) = 8444246486569913 / 281474976710656"
  by code_simp

lemma frame_rate_text_double_example:
  "frame_rate_text (8444246486569913 / 281474976710656) = ''30.00 fps''"
  by code_simp

text \<open>
  Claim C2 at the frame rate \<^verbatim>\<open>2999999/100000\<close>. The float the code computes for
  it is the double nearest to 29.99999. That double is within 0.0001 of its nearest
  integer, 30, and the text is the two-decimal form \<open>30.00 fps\<close>, not the integer
  form \<open>30 fps\<close>: the code compares the rate with \<^verbatim>\<open>int(fps)\<close>, which truncates
  to 29.
\<close>

theorem frame_rate_text_below_integer:
  "map_option round_to_double (evaluate_ratio ''2999999/100000'') =
     Some (8444246486569913 / 281474976710656) \<and>
   py_round (8444246486569913 / 281474976710656) = 30 \<and>
   \<bar>(8444246486569913 / 281474976710656 :: rat) -
      of_int (py_round (8444246486569913 / 281474976710656))\<bar> < 1 / 10000 \<and>
   py_int (8444246486569913 / 281474976710656) = 29 \<and>
   frame_rate_text (8444246486569913 / 281474976710656) = ''30.00 fps'' \<and>
   frame_rate_text (8444246486569913 / 281474976710656) \<noteq>
     fmt_d (py_round (8444246486569913 / 281474976710656)) @ '' fps''"
proof -
  have r: "py_round (8444246486569913 / 281474976710656) = 30" by code_simp
  have t: "py_int (8444246486569913 / 281474976710656) = 29" by code_simp
  have d: "fmt_d 30 = ''30''" by code_simp
  show ?thesis
    by (simp add: evaluate_ratio_example double_example frame_rate_text_double_example r t d)
qed

subsection \<open>The human-readable size\<close>

































subsection \<open>Tiling with a tile size\<close>

lemma py_index_in_range:
  "0 \<le> i \<Longrightarrow> i < int (length xs) \<Longrightarrow> py_index xs i = Inr (xs ! nat i)"
  by (simp add: py_index_def)

lemma set_py_range_0: "c \<in> set (py_range 0 n) \<longleftrightarrow> 0 \<le> c \<and> c < n"
  by (auto simp: py_range_0 image_iff intro!: bexI [of _ "nat c"])

text \<open>Every index \<^verbatim>\<open>row * cols + col\<close> of the loops is inside the list.\<close>

lemma tile_index_bound:
  fixes r c cols rows :: int
  assumes "0 \<le> r" "r < rows" "0 \<le> c" "c < cols"
  shows "0 \<le> r * cols + c \<and> r * cols + c < cols * rows"
proof -
  have cols: "0 \<le> cols" using assms by linarith
  have "(r + 1) * cols \<le> rows * cols"
    by (rule mult_right_mono) (use assms cols in auto)
  then have "r * cols + cols \<le> cols * rows" by (simp add: algebra_simps)
  then have hi: "r * cols + c < cols * rows" using assms(4) by linarith
  have "0 \<le> r * cols" using assms(1) cols by simp
  then show ?thesis using hi assms(3) by simp
qed

lemma paste_row_ok:
  "(\<forall>c \<in> set cs. 0 \<le> row * cols + c \<and> row * cols + c < int (length images)) \<Longrightarrow>
   \<exists>x' ps'. paste_row images cols row ts hs x y ps cs = Inr (x', ps')"
proof (induction cs arbitrary: x ps)
  case Nil
  show ?case by simp
next
  case (Cons c cs)
  have i: "py_index images (row * cols + c) = Inr (images ! nat (row * cols + c))"
    using Cons.prems by (simp add: py_index_in_range)
  have rest: "\<forall>c \<in> set cs. 0 \<le> row * cols + c \<and> row * cols + c < int (length images)"
    using Cons.prems by simp
  show ?case using Cons.IH [OF rest] by (simp add: i Let_def)
qed

lemma paste_rows_ok:
  assumes "0 < cols" "int (length images) = cols * rows"
  shows "(\<forall>r \<in> set rs. 0 \<le> r \<and> r < rows) \<Longrightarrow>
         \<exists>y' ps'. paste_rows images cols ts hs vs hm y ps rs = Inr (y', ps')"
proof (induction rs arbitrary: y ps)
  case Nil
  show ?case by simp
next
  case (Cons r rs)
  have r: "0 \<le> r" "r < rows" using Cons.prems by simp_all
  have "\<forall>c \<in> set (py_range 0 cols). 0 \<le> r * cols + c \<and> r * cols + c < int (length images)"
    using tile_index_bound [OF r] assms(2) by (simp add: set_py_range_0)
  then obtain x' ps' where
    row: "paste_row images cols r ts hs hm y ps (py_range 0 cols) = Inr (x', ps')"
    using paste_row_ok by blast
  have "0 \<le> r * cols + 0 \<and> r * cols + 0 < cols * rows"
    by (rule tile_index_bound [OF r]) (use assms(1) in auto)
  then have first: "py_index images (r * cols) = Inr (images ! nat (r * cols))"
    using assms(2) by (intro py_index_in_range) auto
  have rest: "\<forall>r \<in> set rs. 0 \<le> r \<and> r < rows" using Cons.prems by simp
  show ?case using Cons.IH [OF rest] by (simp add: row first)
qed

lemma py_range_empty: "rows \<le> 0 \<Longrightarrow> py_range 0 rows = []"
  by (simp add: py_range_def)

text \<open>
  With no columns and at least one row the list is empty, and the row loop reads
  \<^verbatim>\<open>images[0]\<close> for the height of its first row.
\<close>

lemma paste_rows_no_columns:
  assumes "0 < rows"
  shows "paste_rows [] 0 ts hs vs hm y ps (py_range 0 rows) = Inl IndexError"
proof -
  have "0 < nat rows" using assms by simp
  then have "[0..<nat rows] = 0 # [Suc 0..<nat rows]" by (simp add: upt_conv_Cons)
  then have "py_range 0 rows = 0 # map int [Suc 0..<nat rows]" by (simp add: py_range_0)
  then show ?thesis by (simp add: py_range_def py_index_def)
qed

text \<open>
  Claim C10. With a tile size \<open>(w, h)\<close>, \<open>m\<close> columns, \<open>n\<close> rows, spacing
  \<open>(sh, sv)\<close> and margins \<open>(mh, mv)\<close> (each \<open>(0, 0)\<close> when not given), every canvas
  that \<^verbatim>\<open>tile_images\<close> returns has width \<open>w m + sh (m - 1) + 2 mh\<close> and height
  \<open>h n + sv (n - 1) + 2 mv\<close>. Whether a canvas is returned does not depend on the sizes
  of the images: it is returned exactly when the number of images is \<open>m n\<close>, except
  that no columns with at least one row fails. Four images of any sizes tiled 2 by 2
  with tile size (480, 270) and no margins give width \<open>480 * 2 + sh\<close> and height
  \<open>270 * 2 + sv\<close>.
\<close>

theorem tile_images_tile_size_canvas:
  assumes "p_tile_size params = Some (w, h)"
    and "(case p_tile_spacing params of Some sp \<Rightarrow> sp | None \<Rightarrow> (0, 0)) = (sh, sv)"
    and "(case p_margins params of Some mg \<Rightarrow> mg | None \<Rightarrow> (0, 0)) = (mh, mv)"
  shows "((\<exists>c. tile_images images (m, n) params = Inr c) =
            (int (length images) = m * n \<and> (m = 0 \<longrightarrow> n \<le> 0))) \<and>
         (\<forall>c. tile_images images (m, n) params = Inr c \<longrightarrow>
            canvas_size c = (w * m + sh * (m - 1) + 2 * mh, h * n + sv * (n - 1) + 2 * mv))"
proof -
  have size: "tile_canvas_size images m n (Some (w, h)) (sh, sv) (mh, mv) =
          Inr (w * m + sh * (m - 1) + 2 * mh, h * n + sv * (n - 1) + 2 * mv)"
    by (simp add: tile_canvas_size_def)
  let ?run = "paste_rows images m (Some (w, h)) sh sv mh mv [] (py_range 0 n)"
  have unfold: "tile_images images (m, n) params =
      (if int (length images) \<noteq> m * n
       then Inl (ValueError (fmt_d (int (length images)) @ '' images cannot fit into a '' @
                               fmt_d m @ ''x'' @ fmt_d n @ ''='' @ fmt_d (m * n) @ '' array''))
       else case ?run of
              Inl e \<Rightarrow> Inl e
            | Inr (y, ps) \<Rightarrow>
                Inr \<lparr>canvas_size = (w * m + sh * (m - 1) + 2 * mh, h * n + sv * (n - 1) + 2 * mv),
                     canvas_color = (case p_canvas_color params of Some c \<Rightarrow> c | None \<Rightarrow> ''white''),
                     canvas_pastes = ps,
                     images_closed =
                       (case p_close_separate_images params of Some b \<Rightarrow> b | None \<Rightarrow> False)\<rparr>)"
    using assms size by (simp add: tile_images_def Let_def)
  have size_ok: "\<forall>c. tile_images images (m, n) params = Inr c \<longrightarrow>
            canvas_size c = (w * m + sh * (m - 1) + 2 * mh, h * n + sv * (n - 1) + 2 * mv)"
    unfolding unfold by (auto split: if_splits sum.splits prod.splits)
  have returns: "(\<exists>c. tile_images images (m, n) params = Inr c) =
            (int (length images) = m * n \<and> (m = 0 \<longrightarrow> n \<le> 0))"
  proof (cases "int (length images) = m * n")
    case False
    then show ?thesis unfolding unfold by simp
  next
    case len: True
    show ?thesis
    proof (cases "n \<le> 0")
      case True
      then show ?thesis unfolding unfold using len by (simp add: py_range_empty)
    next
      case False
      then have n: "0 < n" by simp
      show ?thesis
      proof (cases "m = 0")
        case True
        then have "images = []" using len by simp
        then have "?run = Inl IndexError" using True n by (simp add: paste_rows_no_columns)
        then show ?thesis unfolding unfold using True n len by simp
      next
        case False
        have nonneg: "0 \<le> m * n" using len by (metis of_nat_0_le_iff)
        have m: "0 < m"
        proof (rule ccontr)
          assume "\<not> 0 < m"
          then have "m < 0" using False by simp
          then have "m * n < 0" using n by (rule mult_neg_pos)
          then show False using nonneg by simp
        qed
        have "\<forall>r \<in> set (py_range 0 n). 0 \<le> r \<and> r < n" by (simp add: set_py_range_0)
        then obtain y ps where "?run = Inr (y, ps)"
          using paste_rows_ok [OF m len] by blast
        then show ?thesis unfolding unfold using False len by simp
      qed
    qed
  qed
  from returns size_ok show ?thesis by (rule conjI)
qed

text \<open>
  The hypotheses hold for four frames of different sizes, tile size (480, 270) and
  spacing (4, 3): the canvas is \<open>480 * 2 + 4\<close> wide and \<open>270 * 2 + 3\<close> high.
\<close>

theorem tile_images_tile_size_canvas_witness:
  "p_tile_size resize_params = Some (480, 270) \<and>
   int (length four_frames) = 2 * 2 \<and>
   (\<exists>c. tile_images four_frames (2, 2) resize_params = Inr c \<and>
        canvas_size c = (480 * 2 + 4, 270 * 2 + 3))"
proof -
  have a: "p_tile_size resize_params = Some (480, 270)"
    by (simp add: resize_params_def no_params_def)
  have b: "(case p_tile_spacing resize_params of Some sp \<Rightarrow> sp | None \<Rightarrow> (0, 0)) = (4, 3)"
    by (simp add: resize_params_def no_params_def)
  have c: "(case p_margins resize_params of Some mg \<Rightarrow> mg | None \<Rightarrow> (0, 0)) = (0, 0)"
    by (simp add: resize_params_def no_params_def)
  have len: "int (length four_frames) = 2 * 2" by (simp add: four_frames_def)
  from tile_images_tile_size_canvas [OF a b c, of four_frames 2 2] len a
  show ?thesis by auto
qed

subsection \<open>Evaluations where the code departs from its documentation\<close>

text \<open>
  Claim C1 at a video stream whose \<^verbatim>\<open>display_aspect_ratio\<close> is present and does not
  parse (\<^verbatim>\<open>0:1\<close>): the block that computes the ratio from width and height is the
  \<^verbatim>\<open>else\<close> of the test for the key, so it is skipped; \<^verbatim>\<open>s.dar\<close> and
  \<^verbatim>\<open>s.dar_text\<close> stay \<^verbatim>\<open>None\<close> and the summary line reads \<open>DAR None\<close>.
\<close>

theorem process_stream_malformed_dar:
  "stream_dar malformed_dar_stream 1920 1080 = Inr (None, None) \<and>
   map_sum id (s_info_string \<circ> fst) (process_stream example_video malformed_dar_stream) =
     Inr (Some ''Video, H.264, 1920x1080 (DAR None), 30 fps'')"
proof -
  have a: "stream_dar malformed_dar_stream 1920 1080 = Inr (None, None)"
    by code_simp
  have b: "map_sum id (s_info_string \<circ> fst) (process_stream example_video malformed_dar_stream) =
     Inr (Some ''Video, H.264, 1920x1080 (DAR None), 30 fps'')"
    by code_simp
  from a b show ?thesis by (rule conjI)
qed

text \<open>
  Claim C5 at a 2 by 2 list whose image 3 (row 1, column 1) is one pixel higher than
  image 2 (row 1, column 0), the first image of its row. The message names both indices
  and both sizes, and places image 2 at row 0, column 1: the height check passes
  \<^verbatim>\<open>0, col\<close> for the coordinates of the reference image, as the width check does.
\<close>

theorem tile_images_height_mismatch_message:
  "tile_images height_mismatch_images (2, 2) no_params =
     Inl (ValueError ''the height of image #3 (row #1, col #1, 10x11) does not agree with that of image #2 (row #0, col #1, 10x10)'')"
  by code_simp

text \<open>
  Claim C6 at two images of 100 by 100 pixels tiled in one row with tile size (10, 10):
  the canvas is 20 by 10, each image is pasted at the tile size, and the second paste is
  at \<open>x = 100\<close>, outside the canvas, because \<^verbatim>\<open>x\<close> advances by the width of the input
  image and not by the width of the tile.
\<close>

theorem tile_images_resize_offsets:
  "tile_images large_images (2, 1) small_tile_params =
     Inr \<lparr>canvas_size = (20, 10), canvas_color = ''white'',
          canvas_pastes =
            [\<lparr>pasted_image = \<lparr>im_tag = 0, im_size = (100, 100)\<rparr>,
               pasted_size = (10, 10), pasted_at = (0, 0)\<rparr>,
             \<lparr>pasted_image = \<lparr>im_tag = 1, im_size = (100, 100)\<rparr>,
               pasted_size = (10, 10), pasted_at = (100, 0)\<rparr>],
          images_closed = False\<rparr>"
  by code_simp

text \<open>
  Claim C7 at a file whose first video stream has no aspect ratio and no frame rate that
  parse and whose second video stream has both: the container takes its dimension from
  the first video stream and its aspect ratio and frame rate from the second, since each
  is assigned while the container's value is still \<^verbatim>\<open>None\<close>.
\<close>

theorem extract_streams_later_stream:
  "map_sum id self_dimension
     (extract_streams example_video [cover_art_stream, main_video_stream]) =
     Inr (Some (640, 480)) \<and>
   map_sum id self_dar_text
     (extract_streams example_video [cover_art_stream, main_video_stream]) =
     Inr (Some ''16:9'') \<and>
   map_sum id self_frame_rate_text
     (extract_streams example_video [cover_art_stream, main_video_stream]) =
     Inr (Some ''30 fps'')"
proof -
  have a: "map_sum id self_dimension
     (extract_streams example_video [cover_art_stream, main_video_stream]) =
     Inr (Some (640, 480))"
    by code_simp
  have b: "map_sum id self_dar_text
     (extract_streams example_video [cover_art_stream, main_video_stream]) =
     Inr (Some ''16:9'')"
    by code_simp
  have c: "map_sum id self_frame_rate_text
     (extract_streams example_video [cover_art_stream, main_video_stream]) =
     Inr (Some ''30 fps'')"
    by code_simp
  from a b c show ?thesis by blast
qed

subsection \<open>What the same code paths do keep\<close>

text \<open>
  When the \<^verbatim>\<open>display_aspect_ratio\<close> key is absent and width and height are positive,
  the ratio is computed: its value is width over height and its text the two numbers
  divided by their greatest common divisor.
\<close>

lemma stream_dar_absent:
  assumes "raw_display_aspect_ratio stream = None" and "0 < width" and "0 < height"
  shows "stream_dar stream width height =
           Inr (Some (of_int width / of_int height),
                Some (fmt_d (width div gcd width height) @ '':'' @
                      fmt_d (height div gcd width height)))"
proof -
  let ?g = "gcd width height"
  have g: "0 < ?g" using assms(2) by (simp add: gcd_pos_int)
  have fg: "fractions_gcd width height = ?g"
    using assms(3) g by (simp add: fractions_gcd_def)
  have hpos: "0 < height div ?g"
    using assms(3) g by (simp add: pos_imp_zdiv_pos_iff zdvd_imp_le)
  have "(of_int (width div ?g) :: rat) / of_int (height div ?g) =
        (of_int (width div ?g) * of_int ?g) / (of_int (height div ?g) * of_int ?g)"
    using g by simp
  also have "\<dots> = of_int ((width div ?g) * ?g) / of_int ((height div ?g) * ?g)"
    by (simp only: of_int_mult)
  also have "\<dots> = of_int width / of_int height" by simp
  finally have q: "(of_int (width div ?g) :: rat) / of_int (height div ?g) =
        of_int width / of_int height" .
  show ?thesis
    using assms(1) g hpos q
    by (simp add: stream_dar_def fg py_floordiv_def py_truediv_def Let_def)
qed

text \<open>
  Without a tile size the offsets of the assembling loops add up to the canvas size:
  the height check and the row loop add the same heights, and the width check makes
  every row as wide as the first one.
\<close>

lemma check_rows_paste_rows:
  "check_rows images cols acc rs = Inr ch \<Longrightarrow>
   paste_rows images cols None hs vs hm y ps rs = Inr (y', ps') \<Longrightarrow>
   y' - y - vs * int (length rs) = ch - acc"
proof (induction rs arbitrary: acc y ps)
  case Nil
  then show ?case by simp
next
  case (Cons r rs)
  from Cons.prems(1) obtain ref where
    ref: "py_index images (r * cols) = Inr ref" and
    c: "check_rows images cols (acc + snd (im_size ref)) rs = Inr ch"
    by (auto simp: Let_def split: sum.splits)
  from Cons.prems(2) ref obtain x ps1 where
    p: "paste_rows images cols None hs vs hm (y + (snd (im_size ref) + vs)) ps1 rs = Inr (y', ps')"
    by (auto simp: Let_def split: sum.splits prod.splits)
  have "y' - (y + (snd (im_size ref) + vs)) - vs * int (length rs) = ch - (acc + snd (im_size ref))"
    by (rule Cons.IH [OF c p])
  then show ?case by (simp add: algebra_simps)
qed

lemma check_column_widths:
  "check_column images cols col ref_index ref rs = Inr u \<Longrightarrow>
   \<forall>r \<in> set rs. \<exists>im. py_index images (r * cols + col) = Inr im \<and>
                      fst (im_size im) = fst (im_size ref)"
proof (induction rs)
  case Nil
  show ?case by simp
next
  case (Cons r rs)
  from Cons.prems obtain im where
    im: "py_index images (r * cols + col) = Inr im"
    by (auto simp: Let_def split: sum.splits)
  from Cons.prems im have w: "fst (im_size im) = fst (im_size ref)"
    by (auto simp: Let_def split: sum.splits prod.splits if_splits)
  from Cons.prems im w have rest: "check_column images cols col ref_index ref rs = Inr u"
    by (auto simp: Let_def split: sum.splits prod.splits if_splits)
  show ?case using im w Cons.IH [OF rest] by simp
qed

lemma check_columns_paste_row:
  assumes "0 \<le> r" "r < rows" "0 < cols"
  shows "check_columns images cols rows acc cs = Inr cw \<Longrightarrow>
   (\<forall>c \<in> set cs. 0 \<le> c) \<Longrightarrow>
   paste_row images cols r None hs x y ps cs = Inr (x', ps') \<Longrightarrow>
   x' - x - hs * int (length cs) = cw - acc"
proof (induction cs arbitrary: acc x ps)
  case Nil
  then show ?case by simp
next
  case (Cons c cs)
  from Cons.prems(1) obtain ref where
    ref: "py_index images c = Inr ref" and
    col: "check_column images cols c c ref (py_range 1 rows) = Inr ()" and
    rest: "check_columns images cols rows (acc + fst (im_size ref)) cs = Inr cw"
    by (auto simp: Let_def split: sum.splits)
  from Cons.prems(3) obtain im where
    im: "py_index images (r * cols + c) = Inr im" and
    p: "paste_row images cols r None hs (x + (fst (im_size im) + hs)) y
          (ps @ [\<lparr>pasted_image = im, pasted_size = im_size im, pasted_at = (x, y)\<rparr>]) cs =
        Inr (x', ps')"
    by (auto simp: Let_def split: sum.splits)
  have same: "fst (im_size im) = fst (im_size ref)"
  proof (cases "r = 0")
    case True
    then show ?thesis using im ref by simp
  next
    case False
    then have "1 \<le> r" using assms(1) by simp
    then have "r \<in> set (py_range 1 rows)"
      using assms(2) by (auto simp: py_range_def image_iff intro!: bexI [of _ "nat (r - 1)"])
    then obtain im' where "py_index images (r * cols + c) = Inr im'"
      "fst (im_size im') = fst (im_size ref)"
      using check_column_widths [OF col] by blast
    then show ?thesis using im by simp
  qed
  have "x' - (x + (fst (im_size im) + hs)) - hs * int (length cs) = cw - (acc + fst (im_size ref))"
    by (rule Cons.IH [OF rest _ p]) (use Cons.prems(2) in simp)
  then show ?case using same by (simp add: algebra_simps)
qed

lemma tile_no_size_offsets:
  assumes "tile_canvas_size images cols rows None (hs, vs) (hm, vm) = Inr (cw, ch)"
    and "0 < cols" and "0 < rows"
  shows "(\<forall>r x y ps ps'. 0 \<le> r \<and> r < rows \<and>
            paste_row images cols r None hs hm y ps (py_range 0 cols) = Inr (x, ps') \<longrightarrow>
            x - hs + hm = cw) \<and>
         (\<forall>y ps. paste_rows images cols None hs vs hm vm [] (py_range 0 rows) = Inr (y, ps) \<longrightarrow>
            y - vs + vm = ch)"
proof -
  from assms(1) have
    w: "check_columns images cols rows (hs * (cols - 1) + hm * 2) (py_range 0 cols) = Inr cw" and
    h: "check_rows images cols (vs * (rows - 1) + vm * 2) (py_range 0 rows) = Inr ch"
    by (auto simp: tile_canvas_size_def split: sum.splits)
  have lc: "int (length (py_range 0 cols)) = cols" using assms(2) by (simp add: py_range_def)
  have lr: "int (length (py_range 0 rows)) = rows" using assms(3) by (simp add: py_range_def)
  have nonneg: "\<forall>c \<in> set (py_range 0 cols). 0 \<le> c" by (auto simp: py_range_def)
  have xs: "x - hs + hm = cw"
    if "0 \<le> r" "r < rows"
       "paste_row images cols r None hs hm y ps (py_range 0 cols) = Inr (x, ps')"
    for r x y ps ps'
  proof -
    have "x - hm - hs * int (length (py_range 0 cols)) = cw - (hs * (cols - 1) + hm * 2)"
      by (rule check_columns_paste_row [OF that(1,2) assms(2) w nonneg that(3)])
    then show ?thesis unfolding lc by (simp add: algebra_simps)
  qed
  have ys: "y - vs + vm = ch"
    if "paste_rows images cols None hs vs hm vm [] (py_range 0 rows) = Inr (y, ps)" for y ps
  proof -
    have "y - vm - vs * int (length (py_range 0 rows)) = ch - (vs * (rows - 1) + vm * 2)"
      by (rule check_rows_paste_rows [OF h that])
    then show ?thesis unfolding lr by (simp add: algebra_simps)
  qed
  show ?thesis using xs ys by blast
qed

end
